theory Spec2Isabelle
  imports Main
begin

section \<open>The terminal session bridge of containerlab_server_backend.js\<close>

text \<open>
  The model follows the handler \<^verbatim>\<open>wss.on('connection', (ws, req) => ...)\<close> of
  \<^verbatim>\<open>src/server/containerlab_server_backend.js\<close> (lines 1189 to 1350). The three
  variables the handler closes over (\<^verbatim>\<open>sshClient\<close>, \<^verbatim>\<open>sshStream\<close>,
  \<^verbatim>\<open>dockerProcess\<close>) are the session state; every callback the handler
  registers is a function from the state and the callback's arguments to the new state
  and the list of calls the callback makes on its collaborators (the WebSocket, the pty
  process, the SSH client, the shell stream), in program order.
\<close>

subsection \<open>JSON values\<close>

text \<open>
  The value \<^verbatim>\<open>JSON.parse\<close> returns. Numbers are kept to the integers (the handshake
  uses them for columns and rows only). A property that is absent reads as
  \<^verbatim>\<open>undefined\<close>, which is \<open>None\<close> of \<open>jsval\<close>.
\<close>

datatype json =
    JNull
  | JBool bool
  | JNum int
  | JStr string
  | JArr "json list"
  | JObj "(string \<times> json) list"

type_synonym jsval = "json option"

text \<open>
  \<^verbatim>\<open>data.key\<close> on a value that is not \<^verbatim>\<open>null\<close>. A later duplicate key of an
  object wins, as in \<^verbatim>\<open>JSON.parse\<close>; numbers, booleans, strings and arrays have none
  of the properties the handler reads.
\<close>

fun property :: "json \<Rightarrow> string \<Rightarrow> jsval" where
  "property (JObj kvs) k = map_of (rev kvs) k"
| "property _ k = None"

text \<open>JavaScript truthiness, and \<^verbatim>\<open>v || d\<close> for a numeric default \<open>d\<close>.\<close>

fun truthy :: "jsval \<Rightarrow> bool" where
  "truthy None = False"
| "truthy (Some JNull) = False"
| "truthy (Some (JBool b)) = b"
| "truthy (Some (JNum n)) = (n \<noteq> 0)"
| "truthy (Some (JStr s)) = (s \<noteq> [])"
| "truthy (Some (JArr _)) = True"
| "truthy (Some (JObj _)) = True"

definition js_or :: "jsval \<Rightarrow> int \<Rightarrow> jsval" where
  "js_or v d = (if truthy v then v else Some (JNum d))"

subsection \<open>Calls on the collaborators\<close>

text \<open>
  An argument of \<^verbatim>\<open>pty.spawn\<close>: a string literal, a handshake value passed as it
  is, or the concatenation \<^verbatim>\<open>'admin@' + nodeName\<close> (kept as written: the string
  coercion of JavaScript is not evaluated).
\<close>

datatype arg = Lit string | Val jsval | Cat string jsval

text \<open>
  The options of \<^verbatim>\<open>pty.spawn\<close>. The fields \<^verbatim>\<open>cwd\<close> and \<^verbatim>\<open>env\<close> are read from
  the server's process environment and are left out.
\<close>

record pty_opts =
  name :: string
  cols :: jsval
  rows :: jsval

text \<open>The configuration object of \<^verbatim>\<open>sshClient.connect\<close> (without the debug logger).\<close>

record ssh_config =
  host :: jsval
  username :: string
  tryKeyboard :: bool
  readyTimeout :: nat

text \<open>
  Handles of pty processes, SSH clients and shell streams are natural numbers, handed
  out in the order the objects are created.
\<close>

datatype effect =
    WsSend string
  | WsClose
  | PtySpawn nat string "arg list" pty_opts
  | PtyWrite nat string
  | PtyKill nat
  | SshNew nat
  | SshConnect nat ssh_config
  | SshFinish "string list"
  | SshAuthPassword nat string string
  | SshEnd nat
  | SshShell nat "(string \<times> json) list"
  | StreamWrite nat string
  | SetTimeout nat
  | ClearTimeout

subsection \<open>The platform\<close>

text \<open>
  What the handler takes from Node and its libraries on a raw payload of type \<open>'b\<close>:
  \<^verbatim>\<open>JSON.parse\<close> (\<open>Inl\<close> the message of the error it throws), \<^verbatim>\<open>toString()\<close>,
  whether \<^verbatim>\<open>pty.spawn\<close> throws, and whether \<^verbatim>\<open>sshClient.connect\<close> throws on the
  host it is given (\<open>Some\<close> the message of the error). A JavaScript string is kept as
  its UTF-8 bytes: what \<^verbatim>\<open>write\<close> puts on the stream or the pty, and \<^verbatim>\<open>ws.send\<close>
  in a text frame.
\<close>

record 'b platform =
  json_parse :: "'b \<Rightarrow> string + json"
  to_string :: "'b \<Rightarrow> string"
  spawn_error :: "string \<Rightarrow> arg list \<Rightarrow> string option"
  connect_error :: "jsval \<Rightarrow> string option"

subsection \<open>Session state\<close>

record session =
  sshClient :: "nat option"
  sshStream :: "nat option"
  dockerProcess :: "nat option"
  next_handle :: nat

definition init :: session where
  "init = \<lparr>sshClient = None, sshStream = None, dockerProcess = None, next_handle = 0\<rparr>"

subsection \<open>Diagnostics\<close>

text \<open>The text between \<^verbatim>\<open>\r\n\x1b[31m\<close> and \<^verbatim>\<open>\x1b[0m\<close>.\<close>

definition red :: "string \<Rightarrow> string" where
  "red txt = [CHR 0x0D, CHR 0x0A, CHR 0x1B] @ ''[31m'' @ txt @ [CHR 0x1B] @ ''[0m''"

definition error_notice :: "string \<Rightarrow> string" where
  "error_notice msg = red (''Error: '' @ msg)"

definition closed_notice :: string where
  "closed_notice = red ''Connection closed''"

definition timeout_notice :: string where
  "timeout_notice = red ''Error: Connection timeout''"

definition shell_failed_notice :: string where
  "shell_failed_notice = red ''Error: Failed to create shell''"

subsection \<open>The message handler\<close>

text \<open>
  \<^verbatim>\<open>const { nodeName, nodeIp, username, nodeKind } = data\<close>: a \<^verbatim>\<open>TypeError\<close> on
  \<^verbatim>\<open>null\<close> (with the message of V8), the four properties otherwise. The third
  one, \<^verbatim>\<open>username\<close>, is read and never used.
\<close>

definition destructure :: "json \<Rightarrow> string + (jsval \<times> jsval \<times> jsval \<times> jsval)" where
  "destructure data =
     (if data = JNull
      then Inl ''Cannot destructure property 'nodeName' of 'data' as it is null.''
      else Inr (property data ''nodeName'', property data ''nodeIp'',
                property data ''username'', property data ''nodeKind''))"

definition spawn_opts :: "json \<Rightarrow> pty_opts" where
  "spawn_opts data =
     \<lparr>name = ''xterm-256color'',
      cols = js_or (property data ''cols'') 80,
      rows = js_or (property data ''rows'') 24\<rparr>"

text \<open>
  \<^verbatim>\<open>dockerProcess = pty.spawn(file, args, opts)\<close> inside the \<^verbatim>\<open>try\<close>: when the call
  throws, the variable keeps its value and the \<^verbatim>\<open>catch\<close> reports the error.
\<close>

definition spawn :: "'b platform \<Rightarrow> session \<Rightarrow> string \<Rightarrow> arg list \<Rightarrow> pty_opts
    \<Rightarrow> session \<times> effect list" where
  "spawn P s file args opts =
     (case spawn_error P file args of
        Some e \<Rightarrow> (s, [WsSend (error_notice e)])
      | None \<Rightarrow>
          (s\<lparr>dockerProcess := Some (next_handle s), next_handle := Suc (next_handle s)\<rparr>,
           [PtySpawn (next_handle s) file args opts]))"

text \<open>
  The \<^verbatim>\<open>try\<close> block of the message handler (lines 1204 to 1330). In the last
  branch \<^verbatim>\<open>sshClient\<close> is assigned before \<^verbatim>\<open>connect\<close> is called: when \<^verbatim>\<open>connect\<close>
  throws, the variable stays set, the callbacks and the timer are not installed, and
  the \<^verbatim>\<open>catch\<close> reports the error. A call that throws is not listed among the calls.
\<close>

definition handshake :: "'b platform \<Rightarrow> session \<Rightarrow> 'b \<Rightarrow> session \<times> effect list" where
  "handshake P s message =
     (case json_parse P message of
        Inl e \<Rightarrow> (s, [WsSend (error_notice e)])
      | Inr data \<Rightarrow>
          (case destructure data of
             Inl e \<Rightarrow> (s, [WsSend (error_notice e)])
           | Inr (nodeName, nodeIp, _, nodeKind) \<Rightarrow>
               if nodeKind = Some (JStr ''linux'') then
                 spawn P s ''docker''
                   [Lit ''exec'', Lit ''-it'', Val nodeName, Lit ''sh''] (spawn_opts data)
               else if nodeKind = Some (JStr ''sonic-vm'') then
                 spawn P s ''ssh''
                   [Lit ''-o'', Lit ''StrictHostKeyChecking=no'',
                    Lit ''-o'', Lit ''UserKnownHostsFile=/dev/null'',
                    Cat ''admin@'' nodeName] (spawn_opts data)
               else
                 (s\<lparr>sshClient := Some (next_handle s), next_handle := Suc (next_handle s)\<rparr>,
                  SshNew (next_handle s) #
                  (case connect_error P nodeIp of
                     Some e \<Rightarrow> [WsSend (error_notice e)]
                   | None \<Rightarrow>
                       [SshConnect (next_handle s)
                          \<lparr>host = nodeIp, username = ''admin'', tryKeyboard = True,
                           readyTimeout = 10000\<rparr>,
                        SetTimeout 10000]))))"

text \<open>\<^verbatim>\<open>ws.on('message', ...)\<close> (lines 1195 to 1331).\<close>

definition on_message :: "'b platform \<Rightarrow> session \<Rightarrow> 'b \<Rightarrow> session \<times> effect list" where
  "on_message P s message =
     (case sshStream s of
        Some st \<Rightarrow> (s, [StreamWrite st (to_string P message)])
      | None \<Rightarrow>
          (case dockerProcess s of
             Some p \<Rightarrow> (s, [PtyWrite p (to_string P message)])
           | None \<Rightarrow> handshake P s message))"

subsection \<open>The callbacks of the pty process\<close>

text \<open>\<^verbatim>\<open>dockerProcess.onData\<close>, \<^verbatim>\<open>onExit\<close> and \<^verbatim>\<open>on('error')\<close>, the same for both kinds.\<close>

definition on_pty_data :: "session \<Rightarrow> string \<Rightarrow> session \<times> effect list" where
  "on_pty_data s d = (s, [WsSend d])"

definition on_pty_exit :: "session \<Rightarrow> int \<Rightarrow> int option \<Rightarrow> session \<times> effect list" where
  "on_pty_exit s exitCode signal = (s, [WsSend closed_notice, WsClose])"

definition on_pty_error :: "session \<Rightarrow> string \<Rightarrow> session \<times> effect list" where
  "on_pty_error s msg = (s, [WsSend (error_notice msg), WsClose])"

subsection \<open>The callbacks of the SSH client\<close>

text \<open>
  The callbacks are registered right after \<^verbatim>\<open>sshClient\<close> is assigned, and the variable
  is never reset, so it is set whenever one of them runs; the branch for \<open>None\<close> is
  there for totality and makes no call.
\<close>

definition on_keyboard_interactive :: "session \<Rightarrow> (string \<times> bool) list
    \<Rightarrow> session \<times> effect list" where
  "on_keyboard_interactive s prompts = (s, [SshFinish (map (\<lambda>_. ''admin'') prompts)])"

definition on_authentication_required :: "session \<Rightarrow> string list option
    \<Rightarrow> session \<times> effect list" where
  "on_authentication_required s authMethods =
     (if authMethods = None \<or> authMethods = Some []
      then (case sshClient s of
              Some c \<Rightarrow> (s, [SshAuthPassword c ''admin'' ''admin''])
            | None \<Rightarrow> (s, []))
      else (s, []))"

definition on_ssh_error :: "session \<Rightarrow> string \<Rightarrow> session \<times> effect list" where
  "on_ssh_error s msg = (s, [WsSend (error_notice msg)])"

text \<open>
  The callback of \<^verbatim>\<open>setTimeout(..., 10000)\<close>; \<open>has_sock\<close> says whether
  \<^verbatim>\<open>sshClient._sock\<close> is set when it runs.
\<close>

definition on_connection_timeout :: "session \<Rightarrow> bool \<Rightarrow> session \<times> effect list" where
  "on_connection_timeout s has_sock =
     (case sshClient s of
        Some c \<Rightarrow> if \<not> has_sock then (s, [WsSend timeout_notice, SshEnd c]) else (s, [])
      | None \<Rightarrow> (s, []))"

definition on_ready :: "session \<Rightarrow> session \<times> effect list" where
  "on_ready s =
     (case sshClient s of
        Some c \<Rightarrow> (s, [ClearTimeout, SshShell c [(''term'', JStr ''xterm-256color'')]])
      | None \<Rightarrow> (s, [ClearTimeout]))"

text \<open>
  The callback passed to \<^verbatim>\<open>sshClient.shell\<close>: \<open>Some\<close> an error, or \<open>None\<close> and a
  new stream, which gets the next handle.
\<close>

definition on_shell :: "session \<Rightarrow> string option \<Rightarrow> session \<times> effect list" where
  "on_shell s err =
     (case err of
        Some e \<Rightarrow> (s, [WsSend shell_failed_notice])
      | None \<Rightarrow>
          (s\<lparr>sshStream := Some (next_handle s), next_handle := Suc (next_handle s)\<rparr>, []))"

definition on_stream_data :: "'b platform \<Rightarrow> session \<Rightarrow> 'b \<Rightarrow> session \<times> effect list" where
  "on_stream_data P s d = (s, [WsSend (to_string P d)])"

definition on_stream_close :: "session \<Rightarrow> session \<times> effect list" where
  "on_stream_close s =
     (s\<lparr>sshStream := None\<rparr>,
      case sshClient s of Some c \<Rightarrow> [SshEnd c] | None \<Rightarrow> [])"

subsection \<open>The callbacks of the WebSocket\<close>

text \<open>\<^verbatim>\<open>ws.on('close')\<close> and \<^verbatim>\<open>ws.on('error')\<close> have the same body.\<close>

definition on_ws_close :: "session \<Rightarrow> session \<times> effect list" where
  "on_ws_close s =
     (case sshClient s of
        Some c \<Rightarrow> (s, [SshEnd c])
      | None \<Rightarrow>
          (case dockerProcess s of
             Some p \<Rightarrow> (s, [PtyKill p])
           | None \<Rightarrow> (s, [])))"

definition on_ws_error :: "session \<Rightarrow> string \<Rightarrow> session \<times> effect list" where
  "on_ws_error s msg =
     (case sshClient s of
        Some c \<Rightarrow> (s, [SshEnd c])
      | None \<Rightarrow>
          (case dockerProcess s of
             Some p \<Rightarrow> (s, [PtyKill p])
           | None \<Rightarrow> (s, [])))"

subsection \<open>Events and runs\<close>

text \<open>
  One constructor for each callback, with the arguments the callback reads. In the
  program the callbacks of a driver are registered by the handshake that constructs it,
  so its events arrive only after that; \<open>step\<close> runs the callback in any state, which
  covers those runs and more.
\<close>

datatype 'b event =
    WsMessage 'b
  | WsClosed
  | WsError string
  | PtyData string
  | PtyExit int "int option"
  | PtyError string
  | KeyboardInteractive "(string \<times> bool) list"
  | AuthenticationRequired "string list option"
  | SshError string
  | ConnectionTimeout bool
  | SshReady
  | ShellCallback "string option"
  | StreamData 'b
  | StreamClose

fun step :: "'b platform \<Rightarrow> session \<Rightarrow> 'b event \<Rightarrow> session \<times> effect list" where
  "step P s (WsMessage m) = on_message P s m"
| "step P s WsClosed = on_ws_close s"
| "step P s (WsError e) = on_ws_error s e"
| "step P s (PtyData d) = on_pty_data s d"
| "step P s (PtyExit c sg) = on_pty_exit s c sg"
| "step P s (PtyError e) = on_pty_error s e"
| "step P s (KeyboardInteractive ps) = on_keyboard_interactive s ps"
| "step P s (AuthenticationRequired ms) = on_authentication_required s ms"
| "step P s (SshError e) = on_ssh_error s e"
| "step P s (ConnectionTimeout b) = on_connection_timeout s b"
| "step P s SshReady = on_ready s"
| "step P s (ShellCallback r) = on_shell s r"
| "step P s (StreamData d) = on_stream_data P s d"
| "step P s StreamClose = on_stream_close s"

text \<open>A run handles the events one after the other and collects the calls in order.\<close>

fun run :: "'b platform \<Rightarrow> session \<Rightarrow> 'b event list \<Rightarrow> session \<times> effect list" where
  "run P s [] = (s, [])"
| "run P s (e # es) =
     (case step P s e of
        (s', out) \<Rightarrow> (case run P s' es of (s'', out') \<Rightarrow> (s'', out @ out')))"

subsection \<open>What a run shows to each side\<close>

text \<open>Calls of the driver's stop operation: \<^verbatim>\<open>sshClient.end()\<close> and \<^verbatim>\<open>dockerProcess.kill()\<close>.\<close>

fun is_stop :: "effect \<Rightarrow> bool" where
  "is_stop (SshEnd _) = True"
| "is_stop (PtyKill _) = True"
| "is_stop _ = False"

definition stops :: "effect list \<Rightarrow> nat" where
  "stops out = length (filter is_stop out)"

text \<open>Calls of \<^verbatim>\<open>ws.close()\<close>.\<close>

definition closes :: "effect list \<Rightarrow> nat" where
  "closes out = length (filter (\<lambda>e. e = WsClose) out)"

text \<open>Drivers constructed: \<^verbatim>\<open>pty.spawn\<close> and \<^verbatim>\<open>new Client()\<close>.\<close>

fun is_construct :: "effect \<Rightarrow> bool" where
  "is_construct (PtySpawn _ _ _ _) = True"
| "is_construct (SshNew _) = True"
| "is_construct _ = False"

definition constructed :: "effect list \<Rightarrow> nat" where
  "constructed out = length (filter is_construct out)"


fun client_output :: "effect list \<Rightarrow> string list" where
  "client_output [] = []"
| "client_output (WsSend d # out) = d # client_output out"
| "client_output (_ # out) = client_output out"






text \<open>The events whose callback stops a driver, and those whose callback closes the WebSocket.\<close>

fun stop_trigger :: "'b event \<Rightarrow> bool" where
  "stop_trigger WsClosed = True"
| "stop_trigger (WsError _) = True"
| "stop_trigger (ConnectionTimeout _) = True"
| "stop_trigger StreamClose = True"
| "stop_trigger _ = False"

fun close_trigger :: "'b event \<Rightarrow> bool" where
  "close_trigger (PtyExit _ _) = True"
| "close_trigger (PtyError _) = True"
| "close_trigger _ = False"


subsection \<open>Decoding a buffer\<close>

text \<open>
  \<^verbatim>\<open>Buffer.toString()\<close> of Node decodes the bytes as UTF-8 and puts U+FFFD in the place
  of every ill-formed sequence; it is not code of the repository and is written here
  after the decoder of the Encoding Standard, which Node follows. The decoder reads
  byte by byte: \<open>Idle\<close> between characters, or \<open>Pending seen needed lo hi\<close> inside one,
  with the bytes seen, the number of bytes still needed and the range the next byte
  must lie in. A byte outside the range ends the sequence with U+FFFD and is read
  again as a first byte. The result is the decoded string as UTF-8 bytes.
\<close>

definition byte :: "char \<Rightarrow> nat" where
  "byte c = of_char c"

definition replacement :: string where
  "replacement = [CHR 0xEF, CHR 0xBF, CHR 0xBD]"

datatype decoder = Idle | Pending string nat nat nat

definition lead :: "char \<Rightarrow> string \<times> decoder" where
  "lead b =
     (let n = byte b in
      if n \<le> 0x7F then ([b], Idle)
      else if 0xC2 \<le> n \<and> n \<le> 0xDF then ([], Pending [b] 1 0x80 0xBF)
      else if n = 0xE0 then ([], Pending [b] 2 0xA0 0xBF)
      else if n = 0xED then ([], Pending [b] 2 0x80 0x9F)
      else if 0xE1 \<le> n \<and> n \<le> 0xEF then ([], Pending [b] 2 0x80 0xBF)
      else if n = 0xF0 then ([], Pending [b] 3 0x90 0xBF)
      else if n = 0xF4 then ([], Pending [b] 3 0x80 0x8F)
      else if 0xF1 \<le> n \<and> n \<le> 0xF3 then ([], Pending [b] 3 0x80 0xBF)
      else (replacement, Idle))"

fun decode :: "decoder \<Rightarrow> string \<Rightarrow> string" where
  "decode Idle [] = []"
| "decode (Pending seen needed lo hi) [] = replacement"
| "decode Idle (b # bs) = (case lead b of (out, st) \<Rightarrow> out @ decode st bs)"
| "decode (Pending seen needed lo hi) (b # bs) =
     (if lo \<le> byte b \<and> byte b \<le> hi then
        (if needed = 1 then seen @ [b] @ decode Idle bs
         else decode (Pending (seen @ [b]) (needed - 1) 0x80 0xBF) bs)
      else replacement @ (case lead b of (out, st) \<Rightarrow> out @ decode st bs))"

definition buffer_to_string :: "string \<Rightarrow> string" where
  "buffer_to_string buf = decode Idle buf"




subsection \<open>An example platform\<close>

text \<open>
  Payloads are byte strings: \<^verbatim>\<open>toString()\<close> is the decoder above, \<^verbatim>\<open>pty.spawn\<close> does
  not throw, and \<open>example_parse\<close> is \<^verbatim>\<open>JSON.parse\<close> on the handshakes below; any other
  payload used with it is not JSON. \<^verbatim>\<open>connect\<close> takes a string and, through
  \<^verbatim>\<open>cfg.host || 'localhost'\<close>, an absent or falsy host; on any other host it throws
  here, as Node does on a number. The texts of the two errors are stand-ins.
\<close>

definition hs_container :: string where
  "hs_container = ''{\"nodeKind\":\"linux\",\"nodeName\":\"r1\",\"cols\":80,\"rows\":24}''"

definition hs_device :: string where
  "hs_device = ''{\"nodeKind\":\"ceos\",\"nodeIp\":\"10.0.0.5\",\"cols\":120,\"rows\":40}''"

definition hs_no_address :: string where
  "hs_no_address = ''{\"nodeKind\":\"device\"}''"

definition hs_empty :: string where
  "hs_empty = ''{}''"

definition hs_numeric_address :: string where
  "hs_numeric_address = ''{\"nodeKind\":\"ceos\",\"nodeIp\":5}''"

definition hs_two_kinds :: string where
  "hs_two_kinds = ''{\"nodeKind\":\"linux\",\"nodeKind\":\"srl\",\"nodeIp\":\"10.0.0.7\"}''"

definition example_parse :: "string \<Rightarrow> string + json" where
  "example_parse m =
     (if m = hs_container then
        Inr (JObj [(''nodeKind'', JStr ''linux''), (''nodeName'', JStr ''r1''),
                   (''cols'', JNum 80), (''rows'', JNum 24)])
      else if m = hs_device then
        Inr (JObj [(''nodeKind'', JStr ''ceos''), (''nodeIp'', JStr ''10.0.0.5''),
                   (''cols'', JNum 120), (''rows'', JNum 40)])
      else if m = hs_no_address then
        Inr (JObj [(''nodeKind'', JStr ''device'')])
      else if m = hs_empty then
        Inr (JObj [])
      else if m = hs_numeric_address then
        Inr (JObj [(''nodeKind'', JStr ''ceos''), (''nodeIp'', JNum 5)])
      else if m = hs_two_kinds then
        Inr (JObj [(''nodeKind'', JStr ''linux''), (''nodeKind'', JStr ''srl''),
                   (''nodeIp'', JStr ''10.0.0.7'')])
      else Inl ''Unexpected token'')"

definition example_connect_error :: "jsval \<Rightarrow> string option" where
  "example_connect_error h =
     (case h of
        Some (JStr a) \<Rightarrow> None
      | _ \<Rightarrow> if truthy h then Some ''The \"hostname\" argument must be of type string''
             else None)"

definition example :: "string platform" where
  "example =
     \<lparr>json_parse = example_parse, to_string = buffer_to_string,
      spawn_error = (\<lambda>_ _. None), connect_error = example_connect_error\<rparr>"

text \<open>
  The error the \<^verbatim>\<open>try\<close> block raises before it looks at the kind: the one of
  \<^verbatim>\<open>JSON.parse\<close>, or the one of the destructuring.
\<close>

definition handshake_error :: "'b platform \<Rightarrow> 'b \<Rightarrow> string option" where
  "handshake_error P m =
     (case json_parse P m of
        Inl e \<Rightarrow> Some e
      | Inr data \<Rightarrow> (case destructure data of Inl e \<Rightarrow> Some e | Inr _ \<Rightarrow> None))"

section \<open>Properties\<close>

lemmas handler_defs =
  on_message_def handshake_def destructure_def spawn_def spawn_opts_def js_or_def
  on_ws_close_def on_ws_error_def on_pty_data_def on_pty_exit_def on_pty_error_def
  on_keyboard_interactive_def on_authentication_required_def on_ssh_error_def
  on_connection_timeout_def on_ready_def on_shell_def on_stream_data_def
  on_stream_close_def

lemmas example_defs =
  example_def example_parse_def example_connect_error_def hs_container_def hs_device_def
  hs_no_address_def hs_empty_def hs_numeric_address_def hs_two_kinds_def init_def


subsection \<open>Runs and observations\<close>





lemma stops_append: "stops (xs @ ys) = stops xs + stops ys"
  by (simp add: stops_def)

lemma closes_append: "closes (xs @ ys) = closes xs + closes ys"
  by (simp add: closes_def)







text \<open>The handshake never stops a driver and never closes the WebSocket.\<close>

lemma handshake_no_teardown:
  "stops (snd (handshake P s m)) = 0 \<and> closes (snd (handshake P s m)) = 0"
  by (auto simp: handshake_def spawn_def stops_def closes_def
      split: sum.splits option.splits prod.splits)

lemma step_stops: "stops (snd (step P s ev)) \<le> (if stop_trigger ev then 1 else 0)"
  using handshake_no_teardown[of P s]
  by (cases ev) (auto simp: stops_def handler_defs split: option.splits)

lemma step_closes: "closes (snd (step P s ev)) \<le> (if close_trigger ev then 1 else 0)"
  using handshake_no_teardown[of P s]
  by (cases ev) (auto simp: closes_def handler_defs split: option.splits)

subsection \<open>Relay\<close>




subsection \<open>Teardown\<close>

text \<open>
  Claim C2 (teardown), as the handler has it. No callback stops a driver twice or closes
  the WebSocket twice, but nothing remembers that a teardown already ran: over a run,
  the stop operation (\<^verbatim>\<open>sshClient.end()\<close> or \<^verbatim>\<open>dockerProcess.kill()\<close>) is called at
  most once for each event that triggers it (client disconnect, client connection
  error, shell stream close, connection timeout), and \<^verbatim>\<open>ws.close()\<close> at most once for
  each pty exit or pty error.
\<close>

theorem teardown_once_per_trigger:
  "stops (snd (step P s ev)) \<le> 1 \<and> closes (snd (step P s ev)) \<le> 1 \<and>
   stops (snd (run P s evs)) \<le> length (filter stop_trigger evs) \<and>
   closes (snd (run P s evs)) \<le> length (filter close_trigger evs)"
proof -
  have a: "stops (snd (step P s ev)) \<le> 1"
    using step_stops[of P s ev] by (simp split: if_splits)
  have b: "closes (snd (step P s ev)) \<le> 1"
    using step_closes[of P s ev] by (simp split: if_splits)
  have c: "stops (snd (run P s evs)) \<le> length (filter stop_trigger evs)"
  proof (induction evs arbitrary: s)
    case Nil
    then show ?case by (simp add: stops_def)
  next
    case (Cons e es)
    obtain s' out where st: "step P s e = (s', out)" by (cases "step P s e")
    obtain s'' out' where rn: "run P s' es = (s'', out')" by (cases "run P s' es")
    have "stops out \<le> (if stop_trigger e then 1 else 0)"
      using step_stops[of P s e] st by simp
    moreover have "stops out' \<le> length (filter stop_trigger es)"
      using Cons.IH[of s'] rn by simp
    ultimately show ?case
      using st rn by (auto simp: stops_append split: if_splits)
  qed
  have d: "closes (snd (run P s evs)) \<le> length (filter close_trigger evs)"
  proof (induction evs arbitrary: s)
    case Nil
    then show ?case by (simp add: closes_def)
  next
    case (Cons e es)
    obtain s' out where st: "step P s e = (s', out)" by (cases "step P s e")
    obtain s'' out' where rn: "run P s' es = (s'', out')" by (cases "run P s' es")
    have "closes out \<le> (if close_trigger e then 1 else 0)"
      using step_closes[of P s e] st by simp
    moreover have "closes out' \<le> length (filter close_trigger es)"
      using Cons.IH[of s'] rn by simp
    ultimately show ?case
      using st rn by (auto simp: closes_append split: if_splits)
  qed
  show ?thesis using a b c d by simp
qed

text \<open>
  A connection error followed by the disconnect kills the same pty process twice, and a
  pty error followed by the exit closes the WebSocket twice.
\<close>

theorem teardown_twice_counterexample:
  "run example init [WsMessage hs_container, WsError ''read ECONNRESET'', WsClosed] =
     (\<lparr>sshClient = None, sshStream = None, dockerProcess = Some 0, next_handle = 1\<rparr>,
      [PtySpawn 0 ''docker'' [Lit ''exec'', Lit ''-it'', Val (Some (JStr ''r1'')), Lit ''sh'']
         \<lparr>name = ''xterm-256color'', cols = Some (JNum 80), rows = Some (JNum 24)\<rparr>,
       PtyKill 0, PtyKill 0]) \<and>
   \<not> stops (snd (run example init
         [WsMessage hs_container, WsError ''read ECONNRESET'', WsClosed])) \<le> 1 \<and>
   \<not> closes (snd (run example init
         [WsMessage hs_container, PtyError ''read EIO'', PtyExit 1 None])) \<le> 1"
  by (simp add: handler_defs example_defs stops_def closes_def)

subsection \<open>Handshake\<close>

text \<open>
  Claim C5 (handshake validation), as the handler has it. Before any stream or process
  is set, a payload on which \<^verbatim>\<open>JSON.parse\<close> throws, or which parses to \<^verbatim>\<open>null\<close>, gets
  one diagnostic carrying the error's message; the state is unchanged, so no driver is
  constructed, and nothing closes the connection.
\<close>

theorem unparsable_handshake_reported:
  assumes "sshStream s = None" and "dockerProcess s = None"
    and "handshake_error P m = Some e"
  shows "on_message P s m = (s, [WsSend (error_notice e)])"
  using assms
  by (auto simp: on_message_def handshake_def handshake_error_def
      split: sum.splits option.splits)

theorem unparsable_handshake_reported_witness:
  "sshStream init = None \<and> dockerProcess init = None \<and>
   handshake_error example ''{nodeKind:'' = Some ''Unexpected token'' \<and>
   on_message example init ''{nodeKind:'' = (init, [WsSend (error_notice ''Unexpected token'')])"
  using unparsable_handshake_reported [of init example "''{nodeKind:''" "''Unexpected token''"]
  by (simp add: handshake_error_def example_defs)

text \<open>
  Missing fields are not looked at: a handshake of kind \<^verbatim>\<open>device\<close> with no address gets
  no diagnostic, and a client is constructed and connects with an undefined host.
\<close>

theorem missing_address_counterexample:
  "on_message example init hs_no_address =
     (\<lparr>sshClient = Some 0, sshStream = None, dockerProcess = None, next_handle = 1\<rparr>,
      [SshNew 0,
       SshConnect 0 \<lparr>host = None, username = ''admin'', tryKeyboard = True,
                      readyTimeout = 10000\<rparr>,
       SetTimeout 10000]) \<and>
   client_output (snd (on_message example init hs_no_address)) = [] \<and>
   constructed (snd (on_message example init hs_no_address)) = 1"
  by (simp add: handler_defs example_defs constructed_def)

text \<open>
  Claim C10 (the kind is not validated), as the handler has it. Before any stream or
  process is set, every payload that parses to a value other than \<^verbatim>\<open>null\<close> whose
  \<^verbatim>\<open>nodeKind\<close> is neither \<^verbatim>\<open>'linux'\<close> nor \<^verbatim>\<open>'sonic-vm'\<close> (absent included) takes
  the SSH branch: a client is constructed and \<^verbatim>\<open>connect\<close> is called as \<^verbatim>\<open>admin\<close>
  with whatever \<^verbatim>\<open>nodeIp\<close> is, undefined included. The kind and the address are the
  last entries for their keys when the value is an object, and undefined otherwise.
  When \<^verbatim>\<open>connect\<close> takes the host, the timer is set and the client is sent nothing;
  when it throws, its error is sent as a diagnostic and no timer is set.
\<close>

theorem kind_not_validated:
  assumes "sshStream s = None" and "dockerProcess s = None"
    and "json_parse P m = Inr data" and "data \<noteq> JNull"
    and "kind = (case data of JObj kvs \<Rightarrow> map_of (rev kvs) ''nodeKind'' | _ \<Rightarrow> None)"
    and "address = (case data of JObj kvs \<Rightarrow> map_of (rev kvs) ''nodeIp'' | _ \<Rightarrow> None)"
    and "kind \<noteq> Some (JStr ''linux'')" and "kind \<noteq> Some (JStr ''sonic-vm'')"
  shows "on_message P s m =
     (s\<lparr>sshClient := Some (next_handle s), next_handle := Suc (next_handle s)\<rparr>,
      SshNew (next_handle s) #
      (case connect_error P address of
         None \<Rightarrow>
           [SshConnect (next_handle s)
              \<lparr>host = address, username = ''admin'', tryKeyboard = True,
               readyTimeout = 10000\<rparr>,
            SetTimeout 10000]
       | Some e \<Rightarrow> [WsSend (error_notice e)]))"
proof -
  have k: "property data ''nodeKind'' = kind" and a: "property data ''nodeIp'' = address"
    using assms(5,6) by (cases data; simp)+
  show ?thesis
    using assms(1-4,7,8) k a
    by (simp add: on_message_def handshake_def destructure_def split: option.splits)
qed

text \<open>
  A handshake of kind \<^verbatim>\<open>ceos\<close> connects to the address it carries, and one that
  names its kind twice goes by the second.
\<close>

theorem kind_not_validated_witness:
  "json_parse example hs_device =
     Inr (JObj [(''nodeKind'', JStr ''ceos''), (''nodeIp'', JStr ''10.0.0.5''),
                (''cols'', JNum 120), (''rows'', JNum 40)]) \<and>
   on_message example init hs_device =
     (\<lparr>sshClient = Some 0, sshStream = None, dockerProcess = None, next_handle = 1\<rparr>,
      [SshNew 0,
       SshConnect 0 \<lparr>host = Some (JStr ''10.0.0.5''), username = ''admin'',
                      tryKeyboard = True, readyTimeout = 10000\<rparr>,
       SetTimeout 10000]) \<and>
   json_parse example hs_two_kinds =
     Inr (JObj [(''nodeKind'', JStr ''linux''), (''nodeKind'', JStr ''srl''),
                (''nodeIp'', JStr ''10.0.0.7'')]) \<and>
   on_message example init hs_two_kinds =
     (\<lparr>sshClient = Some 0, sshStream = None, dockerProcess = None, next_handle = 1\<rparr>,
      [SshNew 0,
       SshConnect 0 \<lparr>host = Some (JStr ''10.0.0.7''), username = ''admin'',
                      tryKeyboard = True, readyTimeout = 10000\<rparr>,
       SetTimeout 10000])"
proof -
  have i: "sshStream init = None" "dockerProcess init = None"
    by (simp_all add: init_def)
  have p1: "json_parse example hs_device =
     Inr (JObj [(''nodeKind'', JStr ''ceos''), (''nodeIp'', JStr ''10.0.0.5''),
                (''cols'', JNum 120), (''rows'', JNum 40)])"
    by (simp add: example_defs)
  have p2: "json_parse example hs_two_kinds =
     Inr (JObj [(''nodeKind'', JStr ''linux''), (''nodeKind'', JStr ''srl''),
                (''nodeIp'', JStr ''10.0.0.7'')])"
    by (simp add: example_defs)
  have c: "connect_error example (Some (JStr ''10.0.0.5'')) = None"
    "connect_error example (Some (JStr ''10.0.0.7'')) = None"
    by (simp_all add: example_def example_connect_error_def)
  have 1: "on_message example init hs_device =
     (init\<lparr>sshClient := Some (next_handle init), next_handle := Suc (next_handle init)\<rparr>,
      SshNew (next_handle init) #
      (case connect_error example (Some (JStr ''10.0.0.5'')) of
         None \<Rightarrow>
           [SshConnect (next_handle init)
              \<lparr>host = Some (JStr ''10.0.0.5''), username = ''admin'', tryKeyboard = True,
               readyTimeout = 10000\<rparr>,
            SetTimeout 10000]
       | Some e \<Rightarrow> [WsSend (error_notice e)]))"
    by (rule kind_not_validated [OF i p1, where kind = "Some (JStr ''ceos'')"]) simp_all
  have 2: "on_message example init hs_two_kinds =
     (init\<lparr>sshClient := Some (next_handle init), next_handle := Suc (next_handle init)\<rparr>,
      SshNew (next_handle init) #
      (case connect_error example (Some (JStr ''10.0.0.7'')) of
         None \<Rightarrow>
           [SshConnect (next_handle init)
              \<lparr>host = Some (JStr ''10.0.0.7''), username = ''admin'', tryKeyboard = True,
               readyTimeout = 10000\<rparr>,
            SetTimeout 10000]
       | Some e \<Rightarrow> [WsSend (error_notice e)]))"
    by (rule kind_not_validated [OF i p2, where kind = "Some (JStr ''srl'')"]) simp_all
  show ?thesis
    using 1 2 p1 p2 c by (simp add: init_def)
qed

text \<open>
  A handshake of kind \<^verbatim>\<open>ceos\<close> whose address is the number 5: \<^verbatim>\<open>connect\<close> throws,
  the client is sent the error, and neither the connection nor the timer is started.
\<close>

theorem numeric_address_counterexample:
  "on_message example init hs_numeric_address =
     (\<lparr>sshClient = Some 0, sshStream = None, dockerProcess = None, next_handle = 1\<rparr>,
      [SshNew 0,
       WsSend (error_notice ''The \"hostname\" argument must be of type string'')]) \<and>
   client_output (snd (on_message example init hs_numeric_address)) \<noteq> []"
  by (simp add: handler_defs example_defs)

subsection \<open>Authentication\<close>

text \<open>
  Claim C7 (fixed authentication response policy). For every list of prompts, whatever
  their number and texts, the \<^verbatim>\<open>keyboard-interactive\<close> callback makes one call,
  \<^verbatim>\<open>finish\<close>, with one response for each prompt, each of them \<^verbatim>\<open>'admin'\<close>; the state
  is unchanged and nothing is sent to the client.
\<close>

theorem fixed_response_policy:
  "step P s (KeyboardInteractive prompts) =
     (s, [SshFinish (replicate (length prompts) ''admin'')]) \<and>
   client_output (snd (step P s (KeyboardInteractive prompts))) = []"
  by (simp add: on_keyboard_interactive_def map_replicate_const)

subsection \<open>The SSH branch and the client connection\<close>

text \<open>
  Claim C3 (fatal-error propagation), on the SSH branch. After a device handshake, an
  \<^verbatim>\<open>error\<close> event of the SSH client is reported to the client and that is all: the
  run calls neither \<^verbatim>\<open>ws.close()\<close> nor \<^verbatim>\<open>sshClient.end()\<close>. The same holds when
  \<^verbatim>\<open>sshClient.shell\<close> fails. (The pty callback for \<^verbatim>\<open>error\<close> does send and close.)
\<close>

theorem ssh_error_leaves_session_open:
  "run example init [WsMessage hs_device, SshError ''connect ECONNREFUSED 10.0.0.5:22''] =
     (\<lparr>sshClient = Some 0, sshStream = None, dockerProcess = None, next_handle = 1\<rparr>,
      [SshNew 0,
       SshConnect 0 \<lparr>host = Some (JStr ''10.0.0.5''), username = ''admin'',
                      tryKeyboard = True, readyTimeout = 10000\<rparr>,
       SetTimeout 10000,
       WsSend (error_notice ''connect ECONNREFUSED 10.0.0.5:22'')]) \<and>
   run example init [WsMessage hs_device, SshReady, ShellCallback (Some ''open failure'')] =
     (\<lparr>sshClient = Some 0, sshStream = None, dockerProcess = None, next_handle = 1\<rparr>,
      [SshNew 0,
       SshConnect 0 \<lparr>host = Some (JStr ''10.0.0.5''), username = ''admin'',
                      tryKeyboard = True, readyTimeout = 10000\<rparr>,
       SetTimeout 10000, ClearTimeout, SshShell 0 [(''term'', JStr ''xterm-256color'')],
       WsSend shell_failed_notice]) \<and>
   run example init [WsMessage hs_container, PtyError ''read EIO''] =
     (\<lparr>sshClient = None, sshStream = None, dockerProcess = Some 0, next_handle = 1\<rparr>,
      [PtySpawn 0 ''docker'' [Lit ''exec'', Lit ''-it'', Val (Some (JStr ''r1'')), Lit ''sh'']
         \<lparr>name = ''xterm-256color'', cols = Some (JNum 80), rows = Some (JNum 24)\<rparr>,
       WsSend (error_notice ''read EIO''), WsClose])"
  by (simp add: handler_defs example_defs)

text \<open>
  Claim C4 (device shell timeout). After a device handshake the handler sets a timer
  of 10000 ms and passes \<^verbatim>\<open>readyTimeout: 10000\<close> to the client. When the timer fires
  and the client has no socket, the timeout diagnostic is sent and the client is ended,
  but \<^verbatim>\<open>ws.close()\<close> is not called; when the client has a socket, the callback does
  nothing. No stream is set in either run.
\<close>

theorem connection_timeout_leaves_session_open:
  "run example init [WsMessage hs_device, ConnectionTimeout False] =
     (\<lparr>sshClient = Some 0, sshStream = None, dockerProcess = None, next_handle = 1\<rparr>,
      [SshNew 0,
       SshConnect 0 \<lparr>host = Some (JStr ''10.0.0.5''), username = ''admin'',
                      tryKeyboard = True, readyTimeout = 10000\<rparr>,
       SetTimeout 10000,
       WsSend timeout_notice, SshEnd 0]) \<and>
   run example init [WsMessage hs_device, ConnectionTimeout True] =
     (\<lparr>sshClient = Some 0, sshStream = None, dockerProcess = None, next_handle = 1\<rparr>,
      [SshNew 0,
       SshConnect 0 \<lparr>host = Some (JStr ''10.0.0.5''), username = ''admin'',
                      tryKeyboard = True, readyTimeout = 10000\<rparr>,
       SetTimeout 10000])"
  by (simp add: handler_defs example_defs)

text \<open>
  Claim C6 (exit notice), on the SSH branch. When the shell stream of a relaying
  device session closes, the client is sent nothing and \<^verbatim>\<open>ws.close()\<close> is not called:
  the callback ends the SSH client and resets \<^verbatim>\<open>sshStream\<close>. (The pty callback for
  the exit sends the notice and closes.)
\<close>

theorem stream_close_sends_no_notice:
  "run example init [WsMessage hs_device, SshReady, ShellCallback None, StreamClose] =
     (\<lparr>sshClient = Some 0, sshStream = None, dockerProcess = None, next_handle = 2\<rparr>,
      [SshNew 0,
       SshConnect 0 \<lparr>host = Some (JStr ''10.0.0.5''), username = ''admin'',
                      tryKeyboard = True, readyTimeout = 10000\<rparr>,
       SetTimeout 10000, ClearTimeout, SshShell 0 [(''term'', JStr ''xterm-256color'')],
       SshEnd 0]) \<and>
   run example init [WsMessage hs_container, PtyExit 1 None] =
     (\<lparr>sshClient = None, sshStream = None, dockerProcess = Some 0, next_handle = 1\<rparr>,
      [PtySpawn 0 ''docker'' [Lit ''exec'', Lit ''-it'', Val (Some (JStr ''r1'')), Lit ''sh'']
         \<lparr>name = ''xterm-256color'', cols = Some (JNum 80), rows = Some (JNum 24)\<rparr>,
       WsSend closed_notice, WsClose])"
  by (simp add: handler_defs example_defs)

text \<open>
  For the two pty kinds the guard of the message handler holds from the spawn on:
  \<^verbatim>\<open>dockerProcess\<close> is never reset, and no later event constructs a driver.
\<close>

lemma constructed_append: "constructed (xs @ ys) = constructed xs + constructed ys"
  by (simp add: constructed_def)

lemma pty_step_no_handshake:
  assumes "dockerProcess s = Some p"
  shows "dockerProcess (fst (step P s ev)) = Some p \<and> constructed (snd (step P s ev)) = 0"
  using assms
  by (cases ev) (auto simp: constructed_def handler_defs split: option.splits)

lemma pty_session_single_handshake:
  assumes "dockerProcess s = Some p"
  shows "dockerProcess (fst (run P s evs)) = Some p \<and> constructed (snd (run P s evs)) = 0"
  using assms
proof (induction evs arbitrary: s)
  case Nil
  then show ?case by (simp add: constructed_def)
next
  case (Cons e es)
  obtain s' out where st: "step P s e = (s', out)" by (cases "step P s e")
  obtain s'' out' where rn: "run P s' es = (s'', out')" by (cases "run P s' es")
  have 1: "dockerProcess s' = Some p" and 2: "constructed out = 0"
    using pty_step_no_handshake[OF Cons.prems, of P e] st by simp_all
  have "dockerProcess s'' = Some p \<and> constructed out' = 0"
    using Cons.IH[OF 1] rn by simp
  then show ?case using st rn 2 by (simp add: constructed_append)
qed

text \<open>
  Claim C8 (single handshake per session), on the SSH branch. The message handler
  relays only while \<^verbatim>\<open>sshStream\<close> or \<^verbatim>\<open>dockerProcess\<close> is set. A second handshake
  that arrives after a device handshake and before the shell is ready is parsed again
  and constructs a second client; the disconnect then ends the second client only. A
  payload that arrives after the shell stream closed is parsed as a handshake too.
\<close>

theorem second_handshake_constructs_second_driver:
  "run example init [WsMessage hs_device, WsMessage hs_device, WsClosed] =
     (\<lparr>sshClient = Some 1, sshStream = None, dockerProcess = None, next_handle = 2\<rparr>,
      [SshNew 0,
       SshConnect 0 \<lparr>host = Some (JStr ''10.0.0.5''), username = ''admin'',
                      tryKeyboard = True, readyTimeout = 10000\<rparr>,
       SetTimeout 10000,
       SshNew 1,
       SshConnect 1 \<lparr>host = Some (JStr ''10.0.0.5''), username = ''admin'',
                      tryKeyboard = True, readyTimeout = 10000\<rparr>,
       SetTimeout 10000,
       SshEnd 1]) \<and>
   run example init
       [WsMessage hs_device, SshReady, ShellCallback None, StreamClose, WsMessage hs_container] =
     (\<lparr>sshClient = Some 0, sshStream = None, dockerProcess = Some 2, next_handle = 3\<rparr>,
      [SshNew 0,
       SshConnect 0 \<lparr>host = Some (JStr ''10.0.0.5''), username = ''admin'',
                      tryKeyboard = True, readyTimeout = 10000\<rparr>,
       SetTimeout 10000, ClearTimeout, SshShell 0 [(''term'', JStr ''xterm-256color'')],
       SshEnd 0,
       PtySpawn 2 ''docker'' [Lit ''exec'', Lit ''-it'', Val (Some (JStr ''r1'')), Lit ''sh'']
         \<lparr>name = ''xterm-256color'', cols = Some (JNum 80), rows = Some (JNum 24)\<rparr>])"
  by (simp add: handler_defs example_defs)

subsection \<open>Terminal geometry\<close>

text \<open>
  The pty options take \<^verbatim>\<open>cols\<close> and \<^verbatim>\<open>rows\<close> from the handshake, with 80 and 24 for
  a value that is absent (or falsy).
\<close>

lemma spawn_opts_geometry:
  "cols (spawn_opts data) =
     (if truthy (property data ''cols'') then property data ''cols'' else Some (JNum 80))"
  "rows (spawn_opts data) =
     (if truthy (property data ''rows'') then property data ''rows'' else Some (JNum 24))"
  by (simp_all add: spawn_opts_def js_or_def)

text \<open>
  Claim C9 (terminal geometry), on the SSH branch. A device handshake that asks for 120
  columns and 40 rows: once the client is ready, the shell is requested with the
  terminal type alone, without columns or rows.
\<close>

theorem device_shell_not_sized:
  "json_parse example hs_device =
     Inr (JObj [(''nodeKind'', JStr ''ceos''), (''nodeIp'', JStr ''10.0.0.5''),
                (''cols'', JNum 120), (''rows'', JNum 40)]) \<and>
   run example init [WsMessage hs_device, SshReady] =
     (\<lparr>sshClient = Some 0, sshStream = None, dockerProcess = None, next_handle = 1\<rparr>,
      [SshNew 0,
       SshConnect 0 \<lparr>host = Some (JStr ''10.0.0.5''), username = ''admin'',
                      tryKeyboard = True, readyTimeout = 10000\<rparr>,
       SetTimeout 10000, ClearTimeout, SshShell 0 [(''term'', JStr ''xterm-256color'')]])"
  by (simp add: handler_defs example_defs)

end
